theory Spec2Isabelle
  imports Main "HOL-Library.Char_ord" "HOL-Library.List_Lexorder"
begin

section \<open>Data model (pkg/models/resource.go)\<close>

text \<open>
  Go strings are \<open>string\<close>, slices are lists (the nil slice is the empty list: the code
  only appends to slices and takes their length), and Go's \<open>int\<close> is \<open>int\<close>: every counter
  of the orchestrator is bounded by the length of a slice held in memory, so the 64-bit
  range is never left.  A value of type \<open>error\<close> is the message its \<open>Error()\<close> method
  returns, \<open>None\<close> being the nil error.  The values of the \<open>Extra\<close> bag have type
  \<open>interface{}\<close>; they are never inspected here.
\<close>

typedecl any_value

record Resource =
  Service :: string
  Region :: string
  ID :: string
  Name :: string
  Type :: string
  State :: string
  Class :: string
  CreatedAt :: "int option"
  Tags :: "string \<rightharpoonup> string"
  Extra :: "string \<rightharpoonup> any_value"

text \<open>
  A map-typed struct field is either nil or an allocated map.  Reading a missing key (or
  any key of a nil map) gives the zero value of the element type; assigning into a nil
  map panics.  A local variable that is initialised with \<open>make\<close> and never reassigned is
  an allocated map throughout, and is modelled as a plain map \<open>string \<rightharpoonup> 'v\<close>.
\<close>

datatype 'v gomap = NilMap | GoMap "string \<rightharpoonup> 'v"

datatype panic = AssignToNilMap | NilDereference | MakeChanSizeOutOfRange

definition make_map :: "'v gomap" where
  "make_map = GoMap Map.empty"

fun map_index_int :: "int gomap \<Rightarrow> string \<Rightarrow> int" where
  "map_index_int NilMap k = 0"
| "map_index_int (GoMap f) k = (case f k of None \<Rightarrow> 0 | Some v \<Rightarrow> v)"

definition index_bool :: "(string \<rightharpoonup> bool) \<Rightarrow> string \<Rightarrow> bool" where
  "index_bool f k = (case f k of None \<Rightarrow> False | Some v \<Rightarrow> v)"

fun map_assign :: "'v gomap \<Rightarrow> string \<Rightarrow> 'v \<Rightarrow> panic + 'v gomap" where
  "map_assign NilMap k v = Inl AssignToNilMap"
| "map_assign (GoMap f) k v = Inr (GoMap (f(k \<mapsto> v)))"

text \<open>
  \<open>for k := range m\<close> visits every key once, in an order the runtime chooses anew on
  each loop.  The order is a parameter of the model: a \<open>range_order\<close> gives, for a map,
  the sequence in which its keys are visited.
\<close>

type_synonym 'v range_order = "(string \<rightharpoonup> 'v) \<Rightarrow> string list"

text \<open>One concrete iteration order: the keys of the map in the order of a given list.\<close>

definition keys_along :: "string list \<Rightarrow> 'v range_order" where
  "keys_along ks f = filter (\<lambda>k. f k \<noteq> None) (remdups ks)"

record Summary =
  TotalResources :: int
  ByService :: "int gomap"
  ByRegion :: "int gomap"
  ByState :: "int gomap"
  Errors :: int
  Duration :: int
  Regions :: "string list"
  Services :: "string list"

record ResourceCollection =
  rc_Resources :: "Resource list"
  rc_Errors :: "string list"
  rc_Summary :: Summary

record CollectorResult =
  cr_Service :: string
  cr_Region :: string
  cr_Resources :: "Resource list"
  cr_Error :: "string option"

section \<open>The result aggregator (orchestrator, aggregateResults)\<close>

text \<open>
  The local variables of \<open>aggregateResults\<close>.  The clock is read through \<open>now_at\<close>:
  \<open>now_at k\<close> is what \<open>time.Now()\<close> returns once \<open>k\<close> iterations of the loop over the
  results are complete (\<open>now_at 0\<close> on entry, \<open>now_at (length results)\<close> after the loop).
  Times and durations are integers (nanoseconds); \<open>time.Since\<close> is the difference
  (the library saturates it at the ends of the 64-bit range, about 292 years, which the
  model leaves out).
\<close>

record agg_state =
  allResources :: "Resource list"
  errors :: "string list"
  summary :: Summary
  regionSet :: "string \<rightharpoonup> bool"
  serviceSet :: "string \<rightharpoonup> bool"

definition time_Since :: "int \<Rightarrow> int \<Rightarrow> int" where
  "time_Since now startTime = now - startTime"

definition agg_init :: "(nat \<Rightarrow> int) \<Rightarrow> int \<Rightarrow> agg_state" where
  "agg_init now_at startTime =
     \<lparr> allResources = [], errors = [],
       summary = \<lparr> TotalResources = 0, ByService = make_map, ByRegion = make_map,
                   ByState = make_map, Errors = 0,
                   Duration = time_Since (now_at 0) startTime,
                   Regions = [], Services = [] \<rparr>,
       regionSet = Map.empty, serviceSet = Map.empty \<rparr>"

text \<open>\<open>fmt.Sprintf("%s/%s: %v", result.Service, result.Region, result.Error)\<close>\<close>

definition errorMsg :: "string \<Rightarrow> string \<Rightarrow> string \<Rightarrow> string" where
  "errorMsg service region err = service @ ''/'' @ region @ '': '' @ err"

definition bind_panic :: "panic + 'a \<Rightarrow> ('a \<Rightarrow> panic + 'b) \<Rightarrow> panic + 'b" where
  "bind_panic x f = (case x of Inl p \<Rightarrow> Inl p | Inr v \<Rightarrow> f v)"

text \<open>The inner loop: \<open>if resource.State != "" { summary.ByState[resource.State]++ }\<close>.\<close>

fun count_by_state :: "int gomap \<Rightarrow> Resource list \<Rightarrow> panic + int gomap" where
  "count_by_state m [] = Inr m"
| "count_by_state m (resource # rest) =
     (if State resource \<noteq> []
      then bind_panic (map_assign m (State resource) (map_index_int m (State resource) + 1))
             (\<lambda>m'. count_by_state m' rest)
      else count_by_state m rest)"

text \<open>The body of the loop over the results.\<close>

definition fold_result :: "agg_state \<Rightarrow> CollectorResult \<Rightarrow> panic + agg_state" where
  "fold_result st result =
     (case cr_Error result of
        Some err \<Rightarrow>
          Inr (st\<lparr> errors := errors st @ [errorMsg (cr_Service result) (cr_Region result) err],
                  summary := (summary st)\<lparr> Errors := Errors (summary st) + 1 \<rparr> \<rparr>)
      | None \<Rightarrow>
          bind_panic (map_assign (ByService (summary st)) (cr_Service result)
                        (map_index_int (ByService (summary st)) (cr_Service result)
                           + int (length (cr_Resources result)))) (\<lambda>byService.
          bind_panic (map_assign (ByRegion (summary st)) (cr_Region result)
                        (map_index_int (ByRegion (summary st)) (cr_Region result)
                           + int (length (cr_Resources result)))) (\<lambda>byRegion.
          bind_panic (count_by_state (ByState (summary st)) (cr_Resources result)) (\<lambda>byState.
          Inr \<lparr> allResources = allResources st @ cr_Resources result,
                errors = errors st,
                summary = (summary st)\<lparr> ByService := byService, ByRegion := byRegion,
                                         ByState := byState \<rparr>,
                regionSet = (regionSet st)(cr_Region result \<mapsto> True),
                serviceSet = (serviceSet st)(cr_Service result \<mapsto> True) \<rparr>))))"

fun fold_results :: "agg_state \<Rightarrow> CollectorResult list \<Rightarrow> panic + agg_state" where
  "fold_results st [] = Inr st"
| "fold_results st (result # rest) = bind_panic (fold_result st result) (\<lambda>st'. fold_results st' rest)"

text \<open>After the loop: the key sets become slices, the total is the length of the flat list.\<close>

definition agg_finish :: "bool range_order \<Rightarrow> bool range_order \<Rightarrow> agg_state \<Rightarrow> ResourceCollection" where
  "agg_finish ord_regions ord_services st =
     \<lparr> rc_Resources = allResources st,
       rc_Errors = errors st,
       rc_Summary = (summary st)\<lparr> Regions := Regions (summary st) @ ord_regions (regionSet st),
                                  Services := Services (summary st) @ ord_services (serviceSet st),
                                  TotalResources := int (length (allResources st)) \<rparr> \<rparr>"

definition aggregateResults ::
  "(nat \<Rightarrow> int) \<Rightarrow> bool range_order \<Rightarrow> bool range_order \<Rightarrow> CollectorResult list \<Rightarrow> int
     \<Rightarrow> panic + ResourceCollection" where
  "aggregateResults now_at ord_regions ord_services results startTime =
     bind_panic (fold_results (agg_init now_at startTime) results)
       (\<lambda>st. Inr (agg_finish ord_regions ord_services st))"

section \<open>The collector registry and service selection (orchestrator)\<close>

text \<open>
  A collector is known to the orchestrator through its three methods.  \<open>Collect\<close> takes
  the context and a region: the model passes whether the context is already cancelled,
  and gets the pair \<open>(resources, err)\<close> back.  The registry \<open>o.collectors\<close> is filled once
  by \<open>registerCollectors\<close> and only read afterwards.
\<close>

record Collector =
  c_Name :: string
  c_Regions :: "string list"
  c_Collect :: "bool \<Rightarrow> string \<Rightarrow> Resource list \<times> string option"

fun strings_Join :: "string list \<Rightarrow> string \<Rightarrow> string" where
  "strings_Join [] sep = []"
| "strings_Join [x] sep = x"
| "strings_Join (x # y # rest) sep = x @ sep @ strings_Join (y # rest) sep"

text \<open>\<open>sort.Strings\<close> orders byte-wise, which is the lexicographic order on \<open>string\<close>.\<close>

definition GetAvailableServices :: "Collector range_order \<Rightarrow> (string \<rightharpoonup> Collector) \<Rightarrow> string list" where
  "GetAvailableServices ord_collectors collectors = sort (ord_collectors collectors)"

text \<open>A Go result \<open>(value, error)\<close> is a pair; a nil slice is \<open>[]\<close>, a nil error \<open>None\<close>.\<close>

definition prepareServices ::
  "Collector range_order \<Rightarrow> (string \<rightharpoonup> Collector) \<Rightarrow> string list \<Rightarrow> string list \<times> string option" where
  "prepareServices ord_collectors collectors services =
     (if length services = 0 then (GetAvailableServices ord_collectors collectors, None)
      else
        let validServices = filter (\<lambda>service. collectors service \<noteq> None) services;
            invalidServices = filter (\<lambda>service. collectors service = None) services
        in if length invalidServices > 0
           then ([], Some (''invalid services: '' @ strings_Join invalidServices '', ''))
           else (validServices, None))"

section \<open>Region discovery and validation (aws, ClientManager)\<close>

text \<open>
  The answer of the provider to \<open>DescribeRegions\<close> is a parameter: an error, or the list
  of the \<open>RegionName\<close> pointers (which may be nil) of the regions returned.
\<close>

type_synonym describe_result = "string + string option list"

definition DiscoverRegions :: "describe_result \<Rightarrow> string list \<times> string option" where
  "DiscoverRegions described =
     (case described of
        Inl err \<Rightarrow> ([], Some (''failed to describe regions: '' @ err))
      | Inr result_Regions \<Rightarrow> (map the (filter (\<lambda>name. name \<noteq> None) result_Regions), None))"

definition ValidateRegions :: "describe_result \<Rightarrow> string list \<Rightarrow> string list \<times> string option" where
  "ValidateRegions described regions =
     (case DiscoverRegions described of
        (availableRegions, Some err) \<Rightarrow> ([], Some err)
      | (availableRegions, None) \<Rightarrow>
          let regionMap = foldl (\<lambda>m region. m(region \<mapsto> True)) Map.empty availableRegions;
              validRegions = filter (\<lambda>region. index_bool regionMap region) regions;
              invalidRegions = filter (\<lambda>region. \<not> index_bool regionMap region) regions
          in if length invalidRegions > 0
             then (validRegions, Some (''invalid regions: '' @ strings_Join invalidRegions '', ''))
             else (validRegions, None))"

definition prepareRegions :: "describe_result \<Rightarrow> string list \<Rightarrow> string list \<times> string option" where
  "prepareRegions described regions =
     (if length regions = 0 then DiscoverRegions described
      else ValidateRegions described regions)"

section \<open>The work matrix (orchestrator, createWorkItems)\<close>

record workItem =
  wi_Service :: string
  wi_Region :: string

text \<open>
  \<open>o.collectors[service]\<close> is the nil interface for an unregistered service, and the call
  of \<open>Regions()\<close> on it panics.
\<close>

fun createWorkItems_loop ::
  "(string \<rightharpoonup> Collector) \<Rightarrow> string list \<Rightarrow> workItem list \<Rightarrow> string list \<Rightarrow> panic + workItem list" where
  "createWorkItems_loop collectors regions items [] = Inr items"
| "createWorkItems_loop collectors regions items (service # rest) =
     (case collectors service of
        None \<Rightarrow> Inl NilDereference
      | Some collector \<Rightarrow>
          let collectorRegions = c_Regions collector
          in if length collectorRegions > 0
             then createWorkItems_loop collectors regions
                    (items @ map (\<lambda>region. \<lparr> wi_Service = service, wi_Region = region \<rparr>) collectorRegions) rest
             else createWorkItems_loop collectors regions
                    (items @ map (\<lambda>region. \<lparr> wi_Service = service, wi_Region = region \<rparr>) regions) rest)"

definition createWorkItems ::
  "(string \<rightharpoonup> Collector) \<Rightarrow> string list \<Rightarrow> string list \<Rightarrow> panic + workItem list" where
  "createWorkItems collectors services regions = createWorkItems_loop collectors regions [] services"

section \<open>The bounded parallel executor (orchestrator, executeCollection)\<close>

record CollectOptions =
  opt_Services :: "string list"
  opt_Regions :: "string list"
  opt_Parallel :: int
  opt_FailFast :: bool
  opt_Timeout :: int
  opt_Verbose :: bool

text \<open>
  \<open>make(chan struct{}, n)\<close> panics for a negative \<open>n\<close>; otherwise the channel buffers up
  to \<open>n\<close> elements.  The only receive on the semaphore is the deferred release of a
  goroutine that has sent before, so a send proceeds exactly when the buffer is not full
  (never, for the unbuffered channel of capacity 0).
\<close>

definition make_chan :: "int \<Rightarrow> panic + nat" where
  "make_chan n = (if n < 0 then Inl MakeChanSizeOutOfRange else Inr (nat n))"

text \<open>
  One goroutine per work item.  It waits in the \<open>select\<close>, then either holds a slot and
  runs \<open>collectSingle\<close>, or has returned: after recording its result, or without one
  through the \<open>ctx.Done()\<close> case.
\<close>

datatype task = Waiting | Running | Done | Skipped

datatype call = DescribeRegionsCall | CollectCall string string

record exec_state =
  tasks :: "(workItem \<times> task) list"
  sem_len :: nat
  es_results :: "CollectorResult list"
  ctx_done :: bool
  calls :: "call list"
  panicked :: "panic option"

text \<open>
  The interleaving is a parameter: a schedule is a sequence of events, each one the
  attempt of goroutine \<open>i\<close> to take a step, or the cancellation of the caller's context.
  An event whose goroutine cannot take that step leaves the state as it is.
\<close>

datatype event = Acquire nat | Abort nat | Finish nat | CtxDone

text \<open>
  \<open>collectSingle\<close>; the progress line it may print to \<open>stderr\<close> in verbose mode is not
  part of the model.  The registry lookup gives the nil interface for an unregistered
  service, and the call of \<open>Collect\<close> on it panics.
\<close>

definition collectSingle ::
  "(string \<rightharpoonup> Collector) \<Rightarrow> bool \<Rightarrow> workItem \<Rightarrow> bool \<Rightarrow> panic + CollectorResult" where
  "collectSingle collectors ctx item verbose =
     (case collectors (wi_Service item) of
        None \<Rightarrow> Inl NilDereference
      | Some collector \<Rightarrow>
          (case c_Collect collector ctx (wi_Region item) of
             (resources, err) \<Rightarrow>
               Inr \<lparr> cr_Service = wi_Service item, cr_Region = wi_Region item,
                     cr_Resources = resources, cr_Error = err \<rparr>))"

definition exec_init :: "bool \<Rightarrow> workItem list \<Rightarrow> exec_state" where
  "exec_init ctx workItems =
     \<lparr> tasks = map (\<lambda>item. (item, Waiting)) workItems, sem_len = 0, es_results = [],
       ctx_done = ctx, calls = [], panicked = None \<rparr>"

text \<open>
  The steps of the goroutine body.  \<open>Finish\<close> is the rest of the body after the slot is
  taken: the collector call, the append under the mutex, the fail-fast test (whose
  branch is empty in the source), and the deferred release of the slot.
\<close>

definition exec_step ::
  "(string \<rightharpoonup> Collector) \<Rightarrow> CollectOptions \<Rightarrow> nat \<Rightarrow> event \<Rightarrow> exec_state \<Rightarrow> exec_state" where
  "exec_step collectors opts cap ev st =
     (if panicked st \<noteq> None then st
      else case ev of
        CtxDone \<Rightarrow> st\<lparr> ctx_done := True \<rparr>
      | Acquire i \<Rightarrow>
          if i < length (tasks st) \<and> snd (tasks st ! i) = Waiting \<and> sem_len st < cap
          then st\<lparr> tasks := (tasks st)[i := (fst (tasks st ! i), Running)],
                   sem_len := sem_len st + 1 \<rparr>
          else st
      | Abort i \<Rightarrow>
          if i < length (tasks st) \<and> snd (tasks st ! i) = Waiting \<and> ctx_done st
          then st\<lparr> tasks := (tasks st)[i := (fst (tasks st ! i), Skipped)] \<rparr>
          else st
      | Finish i \<Rightarrow>
          if i < length (tasks st) \<and> snd (tasks st ! i) = Running
          then (case collectSingle collectors (ctx_done st) (fst (tasks st ! i)) (opt_Verbose opts) of
                  Inl p \<Rightarrow> st\<lparr> panicked := Some p \<rparr>
                | Inr result \<Rightarrow>
                    let st1 = st\<lparr> es_results := es_results st @ [result],
                                   calls := calls st @ [CollectCall (cr_Service result) (cr_Region result)] \<rparr>;
                        st2 = (if opt_FailFast opts \<and> cr_Error result \<noteq> None then st1 else st1)
                    in st2\<lparr> tasks := (tasks st2)[i := (fst (tasks st2 ! i), Done)],
                            sem_len := sem_len st2 - 1 \<rparr>)
          else st)"

fun run_events ::
  "(string \<rightharpoonup> Collector) \<Rightarrow> CollectOptions \<Rightarrow> nat \<Rightarrow> event list \<Rightarrow> exec_state \<Rightarrow> exec_state" where
  "run_events collectors opts cap [] st = st"
| "run_events collectors opts cap (ev # evs) st =
     run_events collectors opts cap evs (exec_step collectors opts cap ev st)"

text \<open>\<open>wg.Wait()\<close> returns once every goroutine has returned.\<close>

definition all_returned :: "exec_state \<Rightarrow> bool" where
  "all_returned st = list_all (\<lambda>(item, t). t = Done \<or> t = Skipped) (tasks st)"



datatype 'a outcome = Returns 'a | Panics panic | Blocks

text \<open>
  The call under a schedule: it panics, or returns the results when the schedule has
  brought every goroutine to its end, or is still blocked in \<open>wg.Wait()\<close>.
\<close>

definition executeCollection ::
  "(string \<rightharpoonup> Collector) \<Rightarrow> bool \<Rightarrow> event list \<Rightarrow> workItem list \<Rightarrow> CollectOptions
     \<Rightarrow> CollectorResult list outcome \<times> call list" where
  "executeCollection collectors ctx sched workItems opts =
     (case make_chan (opt_Parallel opts) of
        Inl p \<Rightarrow> (Panics p, [])
      | Inr cap \<Rightarrow>
          let st = run_events collectors opts cap sched (exec_init ctx workItems)
          in (case panicked st of
                Some p \<Rightarrow> (Panics p, calls st)
              | None \<Rightarrow> (if all_returned st then (Returns (es_results st), calls st)
                         else (Blocks, calls st))))"

section \<open>The top-level call (orchestrator, Collect)\<close>

text \<open>
  \<open>Orchestrator.Collect\<close>.  Besides its Go result \<open>(collection, err)\<close>, the model gives the external
  calls made on the way: the region query of \<open>prepareRegions\<close> and the collector calls.
\<close>

definition Collect_orchestrator ::
  "(string \<rightharpoonup> Collector) \<Rightarrow> Collector range_order \<Rightarrow> describe_result \<Rightarrow> bool \<Rightarrow> event list
     \<Rightarrow> int \<Rightarrow> (nat \<Rightarrow> int) \<Rightarrow> bool range_order \<Rightarrow> bool range_order \<Rightarrow> CollectOptions
     \<Rightarrow> (ResourceCollection option \<times> string option) outcome \<times> call list" where
  "Collect_orchestrator collectors ord_collectors described ctx sched startTime now_at ord_regions ord_services opts =
     (case prepareServices ord_collectors collectors (opt_Services opts) of
        (services, Some err) \<Rightarrow> (Returns (None, Some err), [])
      | (services, None) \<Rightarrow>
          (case prepareRegions described (opt_Regions opts) of
             (regions, Some err) \<Rightarrow> (Returns (None, Some err), [DescribeRegionsCall])
           | (regions, None) \<Rightarrow>
               (case createWorkItems collectors services regions of
                  Inl p \<Rightarrow> (Panics p, [DescribeRegionsCall])
                | Inr workItems \<Rightarrow>
                    (case executeCollection collectors ctx sched workItems opts of
                       (Panics p, cs) \<Rightarrow> (Panics p, DescribeRegionsCall # cs)
                     | (Blocks, cs) \<Rightarrow> (Blocks, DescribeRegionsCall # cs)
                     | (Returns rs, cs) \<Rightarrow>
                         (case aggregateResults now_at ord_regions ord_services rs startTime of
                            Inl p \<Rightarrow> (Panics p, DescribeRegionsCall # cs)
                          | Inr collection \<Rightarrow>
                              (Returns (Some collection, None), DescribeRegionsCall # cs))))))"

section \<open>Closed forms, invariants and sample data for the proofs\<close>

subsection \<open>The aggregation without the panic plumbing\<close>

text \<open>
  What the loops of the aggregator compute: the increment of a counter, the sum of the
  counters of a map, the outcomes that are merged, the error lines of those that failed,
  and the maps after a run of increments.  A map of the report is \<open>allocated\<close> when it
  is not nil (its key set is then finite, and \<open>map_total\<close> is the sum of its values).
\<close>

definition bump :: "(string \<rightharpoonup> int) \<Rightarrow> string \<Rightarrow> int \<Rightarrow> (string \<rightharpoonup> int)" where
  "bump f k n = f(k \<mapsto> (case f k of None \<Rightarrow> 0 | Some v \<Rightarrow> v) + n)"

definition values_sum :: "(string \<rightharpoonup> int) \<Rightarrow> int" where
  "values_sum f = (\<Sum>k\<in>dom f. the (f k))"

definition map_total :: "int gomap \<Rightarrow> int" where
  "map_total m = (case m of NilMap \<Rightarrow> 0 | GoMap f \<Rightarrow> values_sum f)"

definition allocated :: "int gomap \<Rightarrow> bool" where
  "allocated m = (case m of NilMap \<Rightarrow> False | GoMap f \<Rightarrow> finite (dom f))"

definition merged :: "CollectorResult list \<Rightarrow> CollectorResult list" where
  "merged rs = filter (\<lambda>r. cr_Error r = None) rs"

fun error_lines :: "CollectorResult list \<Rightarrow> string list" where
  "error_lines [] = []"
| "error_lines (r # rs) =
     (case cr_Error r of
        None \<Rightarrow> error_lines rs
      | Some err \<Rightarrow> errorMsg (cr_Service r) (cr_Region r) err # error_lines rs)"

fun counts_by :: "(CollectorResult \<Rightarrow> string) \<Rightarrow> (string \<rightharpoonup> int) \<Rightarrow> CollectorResult list \<Rightarrow> (string \<rightharpoonup> int)" where
  "counts_by key f [] = f"
| "counts_by key f (r # rs) = counts_by key (bump f (key r) (int (length (cr_Resources r)))) rs"

fun state_counts :: "(string \<rightharpoonup> int) \<Rightarrow> Resource list \<Rightarrow> (string \<rightharpoonup> int)" where
  "state_counts f [] = f"
| "state_counts f (x # xs) = state_counts (if State x \<noteq> [] then bump f (State x) 1 else f) xs"

fun keys_seen :: "(CollectorResult \<Rightarrow> string) \<Rightarrow> (string \<rightharpoonup> bool) \<Rightarrow> CollectorResult list \<Rightarrow> (string \<rightharpoonup> bool)" where
  "keys_seen key f [] = f"
| "keys_seen key f (r # rs) = keys_seen key (f(key r \<mapsto> True)) rs"

subsection \<open>The work matrix, service by service\<close>

definition regions_for :: "(string \<rightharpoonup> Collector) \<Rightarrow> string list \<Rightarrow> string \<Rightarrow> string list" where
  "regions_for collectors regions service =
     (case collectors service of
        None \<Rightarrow> []
      | Some collector \<Rightarrow> if c_Regions collector \<noteq> [] then c_Regions collector else regions)"

definition items_for :: "(string \<rightharpoonup> Collector) \<Rightarrow> string list \<Rightarrow> string \<Rightarrow> workItem list" where
  "items_for collectors regions service =
     map (\<lambda>region. \<lparr> wi_Service = service, wi_Region = region \<rparr>) (regions_for collectors regions service)"

subsection \<open>Invariant and measure of the executor\<close>






subsection \<open>Sample data\<close>

text \<open>
  Two outcomes (one service with two resources in one region, one service that fails in
  another), a clock that advances by 1000 per folded outcome, and a registry of two
  collectors: \<open>ec2\<close> declares no regions and finds one instance wherever it is asked,
  \<open>s3\<close> is pinned to \<open>us-east-1\<close> as in the source, and fails.
\<close>

definition blank_resource :: Resource where
  "blank_resource = \<lparr> Service = [], Region = [], ID = [], Name = [], Type = [], State = [], Class = [],
       CreatedAt = None, Tags = Map.empty, Extra = Map.empty \<rparr>"

definition svc_a_r1 :: CollectorResult where
  "svc_a_r1 = \<lparr> cr_Service = ''svc-a'', cr_Region = ''r1'',
       cr_Resources = [blank_resource\<lparr> Service := ''svc-a'', Region := ''r1'', ID := ''a1'', State := ''running'' \<rparr>,
                       blank_resource\<lparr> Service := ''svc-a'', Region := ''r1'', ID := ''a2'' \<rparr>],
       cr_Error = None \<rparr>"

definition svc_b_r2 :: CollectorResult where
  "svc_b_r2 = \<lparr> cr_Service = ''svc-b'', cr_Region = ''r2'', cr_Resources = [],
       cr_Error = Some ''access denied'' \<rparr>"

definition tick :: "nat \<Rightarrow> int" where
  "tick k = 1000 * int k"

definition ec2_collector :: Collector where
  "ec2_collector = \<lparr> c_Name = ''ec2'', c_Regions = [],
      c_Collect = (\<lambda>ctx region. ([blank_resource\<lparr> Service := ''ec2'', Region := region, ID := ''i-1'' \<rparr>], None)) \<rparr>"

definition s3_collector :: Collector where
  "s3_collector = \<lparr> c_Name = ''s3'', c_Regions = [''us-east-1''],
      c_Collect = (\<lambda>ctx region. ([], Some ''failed to list buckets: access denied'')) \<rparr>"

definition sample_registry :: "string \<rightharpoonup> Collector" where
  "sample_registry = [''ec2'' \<mapsto> ec2_collector, ''s3'' \<mapsto> s3_collector]"

definition sample_options :: CollectOptions where
  "sample_options = \<lparr> opt_Services = [], opt_Regions = [], opt_Parallel = 12, opt_FailFast = False,
      opt_Timeout = 300000000000, opt_Verbose = False \<rparr>"

definition sample_items :: "workItem list" where
  "sample_items = [\<lparr> wi_Service = ''s3'', wi_Region = ''us-east-1'' \<rparr>,
                   \<lparr> wi_Service = ''ec2'', wi_Region = ''eu-west-1'' \<rparr>]"

section \<open>Properties of the aggregator\<close>

lemma error_lines_append: "error_lines (xs @ ys) = error_lines xs @ error_lines ys"
  by (induction xs) (simp_all split: option.splits)

lemma count_by_state_closed: "count_by_state (GoMap f) xs = Inr (GoMap (state_counts f xs))"
  by (induction xs arbitrary: f) (simp_all add: bind_panic_def bump_def)

lemma state_counts_append: "state_counts f (xs @ ys) = state_counts (state_counts f xs) ys"
  by (induction xs arbitrary: f) simp_all

lemma fold_result_failed:
  "cr_Error r = Some e \<Longrightarrow>
   fold_result st r = Inr (st\<lparr> errors := errors st @ [errorMsg (cr_Service r) (cr_Region r) e],
                              summary := (summary st)\<lparr> Errors := Errors (summary st) + 1 \<rparr> \<rparr>)"
  by (simp add: fold_result_def)

lemma fold_result_merged:
  "cr_Error r = None \<Longrightarrow> ByService (summary st) = GoMap bs \<Longrightarrow> ByRegion (summary st) = GoMap br \<Longrightarrow>
   ByState (summary st) = GoMap bt \<Longrightarrow>
   fold_result st r =
     Inr \<lparr> allResources = allResources st @ cr_Resources r, errors = errors st,
           summary = (summary st)\<lparr> ByService := GoMap (bump bs (cr_Service r) (int (length (cr_Resources r)))),
                                    ByRegion := GoMap (bump br (cr_Region r) (int (length (cr_Resources r)))),
                                    ByState := GoMap (state_counts bt (cr_Resources r)) \<rparr>,
           regionSet = (regionSet st)(cr_Region r \<mapsto> True),
           serviceSet = (serviceSet st)(cr_Service r \<mapsto> True) \<rparr>"
  by (simp add: fold_result_def bind_panic_def bump_def count_by_state_closed)

lemma fold_results_closed:
  "ByService (summary st) = GoMap bs \<Longrightarrow> ByRegion (summary st) = GoMap br \<Longrightarrow>
   ByState (summary st) = GoMap bt \<Longrightarrow>
   fold_results st rs =
     Inr \<lparr> allResources = allResources st @ concat (map cr_Resources (merged rs)),
           errors = errors st @ error_lines rs,
           summary = (summary st)\<lparr> ByService := GoMap (counts_by cr_Service bs (merged rs)),
                                    ByRegion := GoMap (counts_by cr_Region br (merged rs)),
                                    ByState := GoMap (state_counts bt (concat (map cr_Resources (merged rs)))),
                                    Errors := Errors (summary st) + int (length (error_lines rs)) \<rparr>,
           regionSet = keys_seen cr_Region (regionSet st) (merged rs),
           serviceSet = keys_seen cr_Service (serviceSet st) (merged rs) \<rparr>"
proof (induction rs arbitrary: st bs br bt)
  case Nil
  then show ?case by (simp add: merged_def)
next
  case (Cons r rs)
  show ?case
  proof (cases "cr_Error r")
    case None
    note step = fold_result_merged [OF None Cons.prems]
    show ?thesis
      by (simp add: step bind_panic_def Cons.IH [where bs = "bump bs (cr_Service r) (int (length (cr_Resources r)))"
             and br = "bump br (cr_Region r) (int (length (cr_Resources r)))"
             and bt = "state_counts bt (cr_Resources r)"] merged_def None state_counts_append fun_upd_def)
  next
    case (Some e)
    note step = fold_result_failed [OF Some]
    show ?thesis
      by (simp add: step bind_panic_def Cons.IH [where bs = bs and br = br and bt = bt] Cons.prems
            merged_def Some)
  qed
qed

lemma dom_bump: "dom (bump f k n) = insert k (dom f)"
  by (simp add: bump_def)

lemma finite_dom_bump: "finite (dom f) \<Longrightarrow> finite (dom (bump f k n))"
  by (simp add: dom_bump)

lemma values_sum_bump:
  assumes fin: "finite (dom f)"
  shows "values_sum (bump f k n) = values_sum f + n"
proof (cases "f k")
  case None
  then have notin: "k \<notin> dom f" by (simp add: domIff)
  have "values_sum (bump f k n) = the (bump f k n k) + (\<Sum>x\<in>dom f. the (bump f k n x))"
    unfolding values_sum_def dom_bump using fin notin by simp
  also have "(\<Sum>x\<in>dom f. the (bump f k n x)) = (\<Sum>x\<in>dom f. the (f x))"
    using notin by (intro sum.cong) (auto simp: bump_def)
  also have "the (bump f k n k) = n" using None by (simp add: bump_def)
  finally show ?thesis by (simp add: values_sum_def)
next
  case (Some v)
  then have "k \<in> dom f" by (simp add: domIff)
  then have ins: "insert k (dom f) = dom f" by auto
  have "values_sum (bump f k n) = the (bump f k n k) + (\<Sum>x\<in>dom f - {k}. the (bump f k n x))"
    unfolding values_sum_def dom_bump ins using fin \<open>k \<in> dom f\<close> by (simp add: sum.remove)
  also have "(\<Sum>x\<in>dom f - {k}. the (bump f k n x)) = (\<Sum>x\<in>dom f - {k}. the (f x))"
    by (intro sum.cong) (auto simp: bump_def)
  also have "the (bump f k n k) = the (f k) + n" using Some by (simp add: bump_def)
  finally have "values_sum (bump f k n) = (the (f k) + (\<Sum>x\<in>dom f - {k}. the (f x))) + n"
    by simp
  also have "the (f k) + (\<Sum>x\<in>dom f - {k}. the (f x)) = values_sum f"
    unfolding values_sum_def using fin \<open>k \<in> dom f\<close> by (simp add: sum.remove)
  finally show ?thesis .
qed

lemma finite_dom_counts_by: "finite (dom f) \<Longrightarrow> finite (dom (counts_by key f rs))"
  by (induction rs arbitrary: f) (simp_all add: finite_dom_bump)

lemma values_sum_counts_by:
  "finite (dom f) \<Longrightarrow>
   values_sum (counts_by key f rs) = values_sum f + int (length (concat (map cr_Resources rs)))"
  by (induction rs arbitrary: f) (simp_all add: finite_dom_bump values_sum_bump)

lemma finite_dom_state_counts: "finite (dom f) \<Longrightarrow> finite (dom (state_counts f xs))"
  by (induction xs arbitrary: f) (simp_all add: finite_dom_bump)

lemma values_sum_state_counts:
  "finite (dom f) \<Longrightarrow>
   values_sum (state_counts f xs) = values_sum f + int (length (filter (\<lambda>x. State x \<noteq> []) xs))"
  by (induction xs arbitrary: f) (simp_all add: finite_dom_bump values_sum_bump)

lemma values_sum_empty: "values_sum Map.empty = 0"
  by (simp add: values_sum_def)

lemma aggregateResults_closed:
  "aggregateResults now_at ord_regions ord_services results startTime =
     Inr \<lparr> rc_Resources = concat (map cr_Resources (merged results)),
           rc_Errors = error_lines results,
           rc_Summary =
             \<lparr> TotalResources = int (length (concat (map cr_Resources (merged results)))),
               ByService = GoMap (counts_by cr_Service Map.empty (merged results)),
               ByRegion = GoMap (counts_by cr_Region Map.empty (merged results)),
               ByState = GoMap (state_counts Map.empty (concat (map cr_Resources (merged results)))),
               Errors = int (length (error_lines results)),
               Duration = now_at 0 - startTime,
               Regions = ord_regions (keys_seen cr_Region Map.empty (merged results)),
               Services = ord_services (keys_seen cr_Service Map.empty (merged results)) \<rparr> \<rparr>"
proof -
  have init: "ByService (summary (agg_init now_at startTime)) = GoMap Map.empty"
    "ByRegion (summary (agg_init now_at startTime)) = GoMap Map.empty"
    "ByState (summary (agg_init now_at startTime)) = GoMap Map.empty"
    by (simp_all add: agg_init_def make_map_def)
  show ?thesis
    unfolding aggregateResults_def fold_results_closed [OF init]
    by (simp add: bind_panic_def agg_finish_def agg_init_def time_Since_def)
qed

subsection \<open>Claims about the aggregator\<close>

text \<open>
  C1, as stated, fails for \<open>ByState\<close>: its values do not sum to \<open>TotalResources\<close> as
  those of \<open>ByService\<close> and \<open>ByRegion\<close> do.  A resource with an empty state is merged
  and counted in the total, but the loop over the states skips it: for one outcome with
  two resources, one of them without a state, the total is 2 and \<open>ByState\<close> sums to 1.
\<close>

theorem byState_total_counterexample:
  "\<not> (case aggregateResults tick (keys_along []) (keys_along []) [svc_a_r1] 0 of
         Inl p \<Rightarrow> False
       | Inr rep \<Rightarrow> map_total (ByState (rc_Summary rep)) = TotalResources (rc_Summary rep))"
  by (simp add: aggregateResults_closed merged_def svc_a_r1_def blank_resource_def map_total_def
        values_sum_bump values_sum_empty)

text \<open>
  C1, amended.  For every list of outcomes the aggregator returns a report (it does not
  panic), and in that report: the flat resource list is the concatenation of the
  resources of the outcomes without error; \<open>TotalResources\<close> is the length of that
  list; the values of \<open>ByService\<close> sum to \<open>TotalResources\<close>, and so do the values of
  \<open>ByRegion\<close>; the values of \<open>ByState\<close> sum to the number of merged resources that
  have a non-empty state; \<open>Errors\<close> is the length of the error list.  Outcomes with an
  error add nothing to the three maps.
\<close>

theorem aggregateResults_summary_consistent:
  "\<exists>rep. aggregateResults now_at ord_regions ord_services results startTime = Inr rep
     \<and> rc_Resources rep = concat (map cr_Resources (merged results))
     \<and> TotalResources (rc_Summary rep) = int (length (rc_Resources rep))
     \<and> allocated (ByService (rc_Summary rep))
     \<and> map_total (ByService (rc_Summary rep)) = TotalResources (rc_Summary rep)
     \<and> Errors (rc_Summary rep) = int (length (rc_Errors rep))
     \<and> allocated (ByRegion (rc_Summary rep))
     \<and> map_total (ByRegion (rc_Summary rep)) = TotalResources (rc_Summary rep)
     \<and> allocated (ByState (rc_Summary rep))
     \<and> map_total (ByState (rc_Summary rep))
           = int (length (filter (\<lambda>resource. State resource \<noteq> []) (rc_Resources rep)))"
  unfolding aggregateResults_closed
  by (simp add: allocated_def map_total_def finite_dom_counts_by finite_dom_state_counts
        values_sum_counts_by values_sum_state_counts values_sum_empty)

theorem aggregateResults_summary_consistent_witness:
  "\<exists>rep. aggregateResults tick (keys_along []) (keys_along []) [svc_a_r1, svc_b_r2] 0 = Inr rep
     \<and> rc_Resources rep = cr_Resources svc_a_r1
     \<and> TotalResources (rc_Summary rep) = 2
     \<and> map_total (ByService (rc_Summary rep)) = 2
     \<and> Errors (rc_Summary rep) = 1
     \<and> rc_Errors rep = [''svc-b/r2: access denied'']
     \<and> map_total (ByRegion (rc_Summary rep)) = 2
     \<and> map_total (ByState (rc_Summary rep)) = 1"
  using aggregateResults_summary_consistent [of tick "keys_along []" "keys_along []" "[svc_a_r1, svc_b_r2]" 0]
  by (auto simp add: merged_def svc_a_r1_def svc_b_r2_def blank_resource_def aggregateResults_closed
         errorMsg_def)

text \<open>
  C5.  An outcome with a non-nil error, wherever it stands in the list, adds exactly one
  line \<open>"<service>/<region>: <error>"\<close> to the error list, at its place among the other
  error lines, and one to the error count.  Everything else in the report is what it is
  without that outcome: the flat resource list (whatever resources the outcome carries),
  \<open>ByService\<close>, \<open>ByRegion\<close>, \<open>ByState\<close>, \<open>TotalResources\<close>, and the \<open>Regions\<close> and
  \<open>Services\<close> slices under the same iteration orders.
\<close>

theorem errored_outcome_only_adds_error:
  "\<exists>rep rep'.
     aggregateResults now_at ord_regions ord_services (xs @ r\<lparr> cr_Error := Some e \<rparr> # ys) startTime = Inr rep
   \<and> aggregateResults now_at ord_regions ord_services (xs @ ys) startTime = Inr rep'
   \<and> rc_Errors rep' = error_lines xs @ error_lines ys
   \<and> rep = rep'\<lparr> rc_Errors := error_lines xs
                                @ [cr_Service r @ ''/'' @ cr_Region r @ '': '' @ e]
                                @ error_lines ys,
                  rc_Summary := (rc_Summary rep')\<lparr> Errors := Errors (rc_Summary rep') + 1 \<rparr> \<rparr>"
  unfolding aggregateResults_closed
  by (simp add: merged_def errorMsg_def error_lines_append)

theorem errored_outcome_only_adds_error_witness:
  "\<exists>rep rep'.
     aggregateResults tick (keys_along [''r1'']) (keys_along [''svc-a'']) [svc_a_r1, svc_b_r2] 0 = Inr rep
   \<and> aggregateResults tick (keys_along [''r1'']) (keys_along [''svc-a'']) [svc_a_r1] 0 = Inr rep'
   \<and> rc_Errors rep' = []
   \<and> rc_Errors rep = [''svc-b/r2: access denied'']
   \<and> Errors (rc_Summary rep) = 1
   \<and> rc_Resources rep = cr_Resources svc_a_r1
   \<and> Regions (rc_Summary rep) = [''r1'']
   \<and> Services (rc_Summary rep) = [''svc-a'']
   \<and> rep = rep'\<lparr> rc_Errors := [''svc-b/r2: access denied''],
                  rc_Summary := (rc_Summary rep')\<lparr> Errors := 1 \<rparr> \<rparr>"
  using errored_outcome_only_adds_error [where now_at = tick and ord_regions = "keys_along [''r1'']"
           and ord_services = "keys_along [''svc-a'']" and xs = "[svc_a_r1]" and r = svc_b_r2
           and e = "''access denied''" and ys = "[]" and startTime = 0]
  by (auto simp add: svc_a_r1_def svc_b_r2_def  errorMsg_def
        aggregateResults_closed merged_def keys_along_def)

text \<open>
  C6, as stated, fails: the duration is not \<open>now() - startedAt\<close> read after the outcomes
  are folded.  With a clock that advances by 1000 per folded outcome and one outcome, the
  reading after the loop gives 1000, and the report says 0.
\<close>

theorem duration_after_fold_counterexample:
  "\<not> (case aggregateResults tick (keys_along []) (keys_along []) [svc_b_r2] 0 of
         Inl p \<Rightarrow> False
       | Inr rep \<Rightarrow> Duration (rc_Summary rep) = tick (length [svc_b_r2]) - 0)"
  by (simp add: aggregateResults_closed tick_def)

text \<open>
  C6, amended.  The duration of the report is the current time minus the start
  timestamp, measured exactly once, on entry to the aggregator and before any outcome is
  folded: the report is the one obtained with the clock stopped at that first reading.
\<close>

theorem duration_measured_on_entry:
  "(\<exists>rep. aggregateResults now_at ord_regions ord_services results startTime = Inr rep
        \<and> Duration (rc_Summary rep) = now_at 0 - startTime)
   \<and> aggregateResults now_at ord_regions ord_services results startTime
       = aggregateResults (\<lambda>k. now_at 0) ord_regions ord_services results startTime"
  by (simp add: aggregateResults_closed)

theorem duration_measured_on_entry_witness:
  "(\<exists>rep. aggregateResults tick (keys_along []) (keys_along []) [svc_a_r1, svc_b_r2] (- 5) = Inr rep
        \<and> Duration (rc_Summary rep) = 5)
   \<and> tick (length [svc_a_r1, svc_b_r2]) - (- 5) = 2005"
  using duration_measured_on_entry [of tick "keys_along []" "keys_along []" "[svc_a_r1, svc_b_r2]" "- 5"]
  by (simp add: tick_def aggregateResults_closed)



text \<open>
  C10.  For every outcome list the aggregator returns a report whose \<open>ByService\<close>,
  \<open>ByRegion\<close> and \<open>ByState\<close> are allocated maps, never nil; when every outcome failed
  (in particular for the empty list) the three maps are empty, \<open>TotalResources\<close> is 0
  and no resource is listed.
\<close>

theorem aggregateResults_maps_allocated:
  "\<exists>rep byService byRegion byState.
     aggregateResults now_at ord_regions ord_services results startTime = Inr rep
   \<and> ByService (rc_Summary rep) = GoMap byService
   \<and> ByRegion (rc_Summary rep) = GoMap byRegion
   \<and> ByState (rc_Summary rep) = GoMap byState
   \<and> (list_all (\<lambda>r. cr_Error r \<noteq> None) results \<longrightarrow>
        byService = Map.empty \<and> byRegion = Map.empty \<and> byState = Map.empty
        \<and> TotalResources (rc_Summary rep) = 0 \<and> rc_Resources rep = [])"
proof -
  have "list_all (\<lambda>r. cr_Error r \<noteq> None) results \<Longrightarrow> merged results = []"
    by (induction results) (simp_all add: merged_def)
  then show ?thesis
    by (auto simp add: aggregateResults_closed)
qed

theorem aggregateResults_maps_allocated_witness:
  "(\<exists>rep. aggregateResults tick (keys_along []) (keys_along []) [] 0 = Inr rep
      \<and> ByService (rc_Summary rep) = GoMap Map.empty
      \<and> ByRegion (rc_Summary rep) = GoMap Map.empty
      \<and> ByState (rc_Summary rep) = GoMap Map.empty
      \<and> TotalResources (rc_Summary rep) = 0)
   \<and> (\<exists>rep. aggregateResults tick (keys_along []) (keys_along []) [svc_b_r2, svc_b_r2] 0 = Inr rep
      \<and> ByService (rc_Summary rep) = GoMap Map.empty
      \<and> ByRegion (rc_Summary rep) = GoMap Map.empty
      \<and> ByState (rc_Summary rep) = GoMap Map.empty
      \<and> TotalResources (rc_Summary rep) = 0
      \<and> Errors (rc_Summary rep) = 2)"
  using aggregateResults_maps_allocated [of tick "keys_along []" "keys_along []" "[]" 0]
    aggregateResults_maps_allocated [of tick "keys_along []" "keys_along []" "[svc_b_r2, svc_b_r2]" 0]
  by (auto simp add: svc_b_r2_def aggregateResults_closed)

section \<open>Properties of the work matrix\<close>

lemma createWorkItems_loop_closed:
  "\<forall>service\<in>set services. collectors service \<noteq> None \<Longrightarrow>
   createWorkItems_loop collectors regions items services
     = Inr (items @ concat (map (items_for collectors regions) services))"
proof (induction services arbitrary: items)
  case Nil
  then show ?case by simp
next
  case (Cons service rest)
  from Cons.prems obtain collector where c: "collectors service = Some collector" by auto
  from Cons.prems have rest: "\<forall>s\<in>set rest. collectors s \<noteq> None" by simp
  show ?case
    by (simp add: c Cons.IH [OF rest] items_for_def regions_for_def)
qed

lemma createWorkItems_loop_unregistered:
  "\<exists>service\<in>set services. collectors service = None \<Longrightarrow>
   createWorkItems_loop collectors regions items services = Inl NilDereference"
  by (induction services arbitrary: items) (auto simp add: Let_def split: option.splits)

lemma wi_Service_items_for: "item \<in> set (items_for collectors regions service) \<Longrightarrow> wi_Service item = service"
  by (auto simp add: items_for_def)

lemma distinct_items_for:
  "distinct (regions_for collectors regions service) \<Longrightarrow> distinct (items_for collectors regions service)"
  by (simp add: items_for_def distinct_map inj_on_def)

lemma distinct_items:
  "distinct services \<Longrightarrow> \<forall>service\<in>set services. distinct (regions_for collectors regions service) \<Longrightarrow>
   distinct (concat (map (items_for collectors regions) services))"
proof (induction services)
  case Nil
  then show ?case by simp
next
  case (Cons service rest)
  have disjoint: "set (items_for collectors regions service)
                    \<inter> set (concat (map (items_for collectors regions) rest)) = {}"
  proof (rule ccontr)
    assume "\<not> ?thesis"
    then obtain item s where "item \<in> set (items_for collectors regions service)"
      and "s \<in> set rest" and "item \<in> set (items_for collectors regions s)" by auto
    then have "s = service" using wi_Service_items_for by blast
    with \<open>s \<in> set rest\<close> Cons.prems(1) show False by simp
  qed
  from Cons disjoint show ?case by (simp add: distinct_items_for)
qed

text \<open>
  C2, as stated, fails in its last part: the builder does not remove duplicates.  A
  service selected twice gives every one of its (service, region) pairs twice.
\<close>

theorem createWorkItems_duplicates_counterexample:
  "\<not> (case createWorkItems sample_registry [''ec2'', ''ec2''] [''us-east-1''] of
         Inl p \<Rightarrow> False
       | Inr items \<Rightarrow> distinct items)"
  by (simp add: createWorkItems_def sample_registry_def ec2_collector_def)

text \<open>
  C2, amended.  For selected services that are all registered, the builder returns, for
  each selected service in turn, one work item per entry of the region list its collector
  declares when that list is non-empty (the selected regions are ignored), and otherwise
  one work item per entry of the selected regions.  The result has no duplicate
  (service, region) pair when the selected services, the selected regions and the
  declared region lists have no duplicate entries; the builder itself removes none.
\<close>

theorem createWorkItems_matrix:
  assumes "\<forall>service\<in>set services. collectors service \<noteq> None"
  shows "\<exists>items. createWorkItems collectors services regions = Inr items
     \<and> items = concat (map (\<lambda>service. map (\<lambda>region. \<lparr> wi_Service = service, wi_Region = region \<rparr>)
                               (let declared = c_Regions (the (collectors service))
                                in if declared \<noteq> [] then declared else regions)) services)
     \<and> (distinct services \<and> distinct regions
          \<and> (\<forall>service\<in>set services. distinct (c_Regions (the (collectors service))))
        \<longrightarrow> distinct items)"
proof -
  have eq: "map (items_for collectors regions) services
          = map (\<lambda>service. map (\<lambda>region. \<lparr> wi_Service = service, wi_Region = region \<rparr>)
                               (let declared = c_Regions (the (collectors service))
                                in if declared \<noteq> [] then declared else regions)) services"
    using assms by (auto simp add: items_for_def regions_for_def Let_def)
  have "distinct (concat (map (items_for collectors regions) services))"
    if "distinct services" "distinct regions"
       "\<forall>service\<in>set services. distinct (c_Regions (the (collectors service)))"
  proof (rule distinct_items [OF that(1)])
    show "\<forall>service\<in>set services. distinct (regions_for collectors regions service)"
      using that(2,3) assms by (auto simp add: regions_for_def split: option.splits)
  qed
  then show ?thesis
    unfolding createWorkItems_def createWorkItems_loop_closed [OF assms] eq [symmetric]
    by simp
qed

theorem createWorkItems_matrix_witness:
  "list_all (\<lambda>service. sample_registry service \<noteq> None) [''ec2'', ''s3'']
   \<and> createWorkItems sample_registry [''ec2'', ''s3''] [''eu-west-1'', ''us-west-2'']
       = Inr [\<lparr> wi_Service = ''ec2'', wi_Region = ''eu-west-1'' \<rparr>,
              \<lparr> wi_Service = ''ec2'', wi_Region = ''us-west-2'' \<rparr>,
              \<lparr> wi_Service = ''s3'', wi_Region = ''us-east-1'' \<rparr>]
   \<and> distinct [''ec2'', ''s3''] \<and> distinct [''eu-west-1'', ''us-west-2'']
   \<and> list_all (\<lambda>service. distinct (c_Regions (the (sample_registry service)))) [''ec2'', ''s3'']
   \<and> distinct [\<lparr> wi_Service = ''ec2'', wi_Region = ''eu-west-1'' \<rparr>,
              \<lparr> wi_Service = ''ec2'', wi_Region = ''us-west-2'' \<rparr>,
              \<lparr> wi_Service = ''s3'', wi_Region = ''us-east-1'' \<rparr>]"
proof -
  have reg: "\<forall>service\<in>set [''ec2'', ''s3'']. sample_registry service \<noteq> None"
    by (simp add: sample_registry_def)
  have declared: "\<forall>service\<in>set [''ec2'', ''s3'']. distinct (c_Regions (the (sample_registry service)))"
    by (simp add: sample_registry_def ec2_collector_def s3_collector_def)
  have run: "createWorkItems sample_registry [''ec2'', ''s3''] [''eu-west-1'', ''us-west-2'']
       = Inr [\<lparr> wi_Service = ''ec2'', wi_Region = ''eu-west-1'' \<rparr>,
              \<lparr> wi_Service = ''ec2'', wi_Region = ''us-west-2'' \<rparr>,
              \<lparr> wi_Service = ''s3'', wi_Region = ''us-east-1'' \<rparr>]"
    by (simp add: createWorkItems_def sample_registry_def ec2_collector_def s3_collector_def)
  from createWorkItems_matrix [OF reg, of "[''eu-west-1'', ''us-west-2'']"]
  obtain items where ret: "createWorkItems sample_registry [''ec2'', ''s3''] [''eu-west-1'', ''us-west-2''] = Inr items"
    and dist: "distinct [''ec2'', ''s3''] \<and> distinct [''eu-west-1'', ''us-west-2'']
          \<and> (\<forall>service\<in>set [''ec2'', ''s3'']. distinct (c_Regions (the (sample_registry service))))
        \<longrightarrow> distinct items"
    by blast
  from dist declared have "distinct items" by simp
  moreover from ret run have "items = [\<lparr> wi_Service = ''ec2'', wi_Region = ''eu-west-1'' \<rparr>,
              \<lparr> wi_Service = ''ec2'', wi_Region = ''us-west-2'' \<rparr>,
              \<lparr> wi_Service = ''s3'', wi_Region = ''us-east-1'' \<rparr>]" by simp
  ultimately show ?thesis using reg declared run by (simp add: list_all_iff)
qed

section \<open>Properties of validation and of the top-level call\<close>

lemma index_bool_regionMap:
  "index_bool (foldl (\<lambda>m region. m(region \<mapsto> True)) m0 available) r
     = (r \<in> set available \<or> index_bool m0 r)"
  by (induction available arbitrary: m0) (auto simp add: index_bool_def)

lemma index_bool_empty: "index_bool Map.empty r = False"
  by (simp add: index_bool_def)

lemma regionMap_member:
  "index_bool (foldl (\<lambda>m region. m(region \<mapsto> True)) Map.empty available) = (\<lambda>region. region \<in> set available)"
  by (rule ext) (simp add: index_bool_regionMap index_bool_empty)

lemma invalid_nonempty:
  "(filter (\<lambda>region. region \<notin> set available) regions \<noteq> []) = (\<exists>region\<in>set regions. region \<notin> set available)"
  by (simp add: filter_empty_conv)

text \<open>
  C9, as stated, fails when the discovery itself fails: \<open>ValidateRegions\<close> then returns
  that error alone, with a nil list, although no requested region has been found invalid
  (here, for an empty request), and whatever was requested.
\<close>

theorem ValidateRegions_discovery_counterexample:
  "\<not> ((snd (ValidateRegions (Inl ''boom'') []) \<noteq> None)
        = (\<exists>region\<in>set []. region \<notin> set (fst (DiscoverRegions (Inl ''boom'')))))
   \<and> ValidateRegions (Inl ''boom'') [''us-east-1''] = ([], Some ''failed to describe regions: boom'')"
  by (simp add: ValidateRegions_def DiscoverRegions_def)

text \<open>
  C9, amended.  When the discovery of the regions succeeds, \<open>ValidateRegions\<close> returns
  the requested regions that are among the discovered ones, in request order, together
  with an error that lists the others, joined by \<open>", "\<close> in request order; the valid
  regions are returned also when the error is not nil, and the error is not nil exactly
  when some requested region is not among the discovered ones.  When the discovery fails,
  it returns the discovery error alone, with a nil list.
\<close>

theorem ValidateRegions_valid_and_error:
  "(DiscoverRegions described = (available, None) \<longrightarrow>
      ValidateRegions described regions =
        (filter (\<lambda>region. region \<in> set available) regions,
         if \<exists>region\<in>set regions. region \<notin> set available
         then Some (''invalid regions: '' @ strings_Join (filter (\<lambda>region. region \<notin> set available) regions) '', '')
         else None)
      \<and> (snd (ValidateRegions described regions) \<noteq> None) = (\<exists>region\<in>set regions. region \<notin> set available))
   \<and> (DiscoverRegions described = (available, Some err) \<longrightarrow>
      ValidateRegions described regions = ([], Some err))"
proof -
  have first: "ValidateRegions described regions =
     (filter (\<lambda>region. region \<in> set available) regions,
      if \<exists>region\<in>set regions. region \<notin> set available
      then Some (''invalid regions: '' @ strings_Join (filter (\<lambda>region. region \<notin> set available) regions) '', '')
      else None)"
    if found: "DiscoverRegions described = (available, None)"
    unfolding ValidateRegions_def found
    using invalid_nonempty [of available regions]
    by (simp add: regionMap_member Let_def)
  have second: "ValidateRegions described regions = ([], Some err)"
    if lost: "DiscoverRegions described = (available, Some err)"
    unfolding ValidateRegions_def lost by simp
  from first second show ?thesis by auto
qed

theorem ValidateRegions_valid_and_error_witness:
  "DiscoverRegions (Inr [Some ''us-east-1'', None, Some ''eu-west-1'']) = ([''us-east-1'', ''eu-west-1''], None)
   \<and> ValidateRegions (Inr [Some ''us-east-1'', None, Some ''eu-west-1''])
        [''mars-1'', ''eu-west-1'', ''moon-2'', ''us-east-1'']
     = ([''eu-west-1'', ''us-east-1''], Some ''invalid regions: mars-1, moon-2'')
   \<and> ValidateRegions (Inr [Some ''us-east-1'', None, Some ''eu-west-1'']) [''eu-west-1''] = ([''eu-west-1''], None)
   \<and> DiscoverRegions (Inl ''timeout'') = ([], Some ''failed to describe regions: timeout'')
   \<and> ValidateRegions (Inl ''timeout'') [''eu-west-1''] = ([], Some ''failed to describe regions: timeout'')"
proof -
  have found: "DiscoverRegions (Inr [Some ''us-east-1'', None, Some ''eu-west-1'']) = ([''us-east-1'', ''eu-west-1''], None)"
    by (simp add: DiscoverRegions_def)
  have lost: "DiscoverRegions (Inl ''timeout'') = ([], Some ''failed to describe regions: timeout'')"
    by (simp add: DiscoverRegions_def)
  from ValidateRegions_valid_and_error [of "Inr [Some ''us-east-1'', None, Some ''eu-west-1'']"
         "[''us-east-1'', ''eu-west-1'']" "[''mars-1'', ''eu-west-1'', ''moon-2'', ''us-east-1'']"] found
  have a: "ValidateRegions (Inr [Some ''us-east-1'', None, Some ''eu-west-1''])
        [''mars-1'', ''eu-west-1'', ''moon-2'', ''us-east-1'']
     = ([''eu-west-1'', ''us-east-1''], Some ''invalid regions: mars-1, moon-2'')" by simp
  from ValidateRegions_valid_and_error [of "Inr [Some ''us-east-1'', None, Some ''eu-west-1'']"
         "[''us-east-1'', ''eu-west-1'']" "[''eu-west-1'']"] found
  have b: "ValidateRegions (Inr [Some ''us-east-1'', None, Some ''eu-west-1'']) [''eu-west-1''] = ([''eu-west-1''], None)"
    by simp
  from ValidateRegions_valid_and_error [of "Inl ''timeout''" "[]" "[''eu-west-1'']"
         "''failed to describe regions: timeout''"] lost
  have c: "ValidateRegions (Inl ''timeout'') [''eu-west-1''] = ([], Some ''failed to describe regions: timeout'')"
    by simp
  from found a b lost c show ?thesis by simp
qed

lemma prepareServices_invalid:
  assumes "\<exists>service\<in>set services. collectors service = None"
  shows "prepareServices ord_collectors collectors services
     = ([], Some (''invalid services: '' @ strings_Join (filter (\<lambda>service. collectors service = None) services) '', ''))"
proof -
  from assms have "services \<noteq> []" by auto
  moreover from assms have "filter (\<lambda>service. collectors service = None) services \<noteq> []"
    by (simp add: filter_empty_conv)
  ultimately show ?thesis by (simp add: prepareServices_def Let_def)
qed

text \<open>
  C8.  When a requested service has no registered collector, \<open>Collect\<close> returns a nil
  collection and the error \<open>"invalid services: ..."\<close> naming the unregistered services,
  whatever the regions, the context and the schedule; it makes no external call before:
  no region query, and no collector call.
\<close>

theorem Collect_rejects_unknown_service:
  assumes "\<exists>service\<in>set (opt_Services opts). collectors service = None"
  shows "Collect_orchestrator collectors ord_collectors described ctx sched startTime now_at ord_regions ord_services opts
     = (Returns (None, Some (''invalid services: ''
                  @ strings_Join (filter (\<lambda>service. collectors service = None) (opt_Services opts)) '', '')),
        [])"
  by (simp add: Collect_orchestrator_def prepareServices_invalid [OF assms])

theorem Collect_rejects_unknown_service_witness:
  "(\<exists>service\<in>set (opt_Services (sample_options\<lparr> opt_Services := [''ec2'', ''rdx'', ''s3'', ''ebs''] \<rparr>)).
       sample_registry service = None)
   \<and> Collect_orchestrator sample_registry (keys_along [''ec2'', ''s3'']) (Inr [Some ''us-east-1'']) False
        [Acquire 0, Finish 0] 0 tick (keys_along []) (keys_along [])
        (sample_options\<lparr> opt_Services := [''ec2'', ''rdx'', ''s3'', ''ebs''] \<rparr>)
      = (Returns (None, Some ''invalid services: rdx, ebs''), [])"
proof -
  have bad: "\<exists>service\<in>set (opt_Services (sample_options\<lparr> opt_Services := [''ec2'', ''rdx'', ''s3'', ''ebs''] \<rparr>)).
       sample_registry service = None"
    by (simp add: sample_registry_def)
  have msg: "strings_Join (filter (\<lambda>service. sample_registry service = None)
                 (opt_Services (sample_options\<lparr> opt_Services := [''ec2'', ''rdx'', ''s3'', ''ebs''] \<rparr>))) '', ''
             = ''rdx, ebs''"
    by (simp add: sample_registry_def)
  from Collect_rejects_unknown_service [OF bad, of "keys_along [''ec2'', ''s3'']" "Inr [Some ''us-east-1'']"
         False "[Acquire 0, Finish 0]" 0 tick "keys_along []" "keys_along []"] bad
  show ?thesis unfolding msg by simp
qed

section \<open>Properties of the executor\<close>






























lemma exec_step_ignores_FailFast:
  "exec_step collectors (opts\<lparr> opt_FailFast := b \<rparr>) cap ev st = exec_step collectors opts cap ev st"
  by (simp add: exec_step_def Let_def split: event.splits sum.splits)

lemma run_events_ignores_FailFast:
  "run_events collectors (opts\<lparr> opt_FailFast := b \<rparr>) cap evs st = run_events collectors opts cap evs st"
  by (induction evs arbitrary: st) (simp_all add: exec_step_ignores_FailFast)

lemma executeCollection_ignores_FailFast:
  "executeCollection collectors ctx sched workItems (opts\<lparr> opt_FailFast := b \<rparr>)
     = executeCollection collectors ctx sched workItems opts"
  by (simp add: executeCollection_def run_events_ignores_FailFast split: sum.splits)

text \<open>
  C4 at a concrete run: fail-fast is on, one slot, two work items.  The first task fails
  (the \<open>s3\<close> collector returns an error) while the second has not started.  The
  context is not cancelled by the failure: the second task cannot leave through
  \<open>ctx.Done()\<close>, takes the slot, runs its collector, and both outcomes are returned.
\<close>

theorem fail_fast_does_not_cancel:
  "executeCollection sample_registry False [Acquire 0, Finish 0, Abort 1, Acquire 1, Finish 1] sample_items
      (sample_options\<lparr> opt_Parallel := 1, opt_FailFast := True \<rparr>)
   = (Returns [\<lparr> cr_Service = ''s3'', cr_Region = ''us-east-1'', cr_Resources = [],
                 cr_Error = Some ''failed to list buckets: access denied'' \<rparr>,
               \<lparr> cr_Service = ''ec2'', cr_Region = ''eu-west-1'',
                 cr_Resources = [blank_resource\<lparr> Service := ''ec2'', Region := ''eu-west-1'', ID := ''i-1'' \<rparr>],
                 cr_Error = None \<rparr>],
      [CollectCall ''s3'' ''us-east-1'', CollectCall ''ec2'' ''eu-west-1''])
   \<and> \<not> ctx_done (run_events sample_registry (sample_options\<lparr> opt_Parallel := 1, opt_FailFast := True \<rparr>) 1
                     [Acquire 0, Finish 0] (exec_init False sample_items))"
  by (simp add: executeCollection_def make_chan_def exec_init_def sample_items_def exec_step_def
        collectSingle_def sample_registry_def s3_collector_def ec2_collector_def sample_options_def
        all_returned_def Let_def)


end
